theory Spec2Isabelle
  imports Complex_Main "HOL-Library.Multiset" "HOL-Library.Product_Lexorder"
begin

chapter \<open>The report controllers\<close>

section \<open>JavaScript time values\<close>

text \<open>
  A JavaScript \<open>Date\<close> holds a time value: an integral number of milliseconds since the
  epoch, or NaN (an Invalid Date).  A time value is modelled as \<open>int option\<close>, \<open>None\<close> being
  NaN.  The definitions follow the abstract operations of the language standard (Day,
  DayFromYear, YearFromTime, MonthFromTime, DateFromTime, MakeDay, MakeDate, TimeClip).
  Local time is UTC plus a fixed offset \<open>tz\<close> in milliseconds; daylight saving is left out.
\<close>

type_synonym JSDate = "int option"

definition msPerDay :: int where
  "msPerDay = 86400000"

definition TimeClip :: "int \<Rightarrow> JSDate" where
  "TimeClip t = (if \<bar>t\<bar> > 8640000000000000 then None else Some t)"

definition Day :: "int \<Rightarrow> int" where
  "Day t = t div msPerDay"

definition TimeWithinDay :: "int \<Rightarrow> int" where
  "TimeWithinDay t = t mod msPerDay"

definition DaysInYear :: "int \<Rightarrow> int" where
  "DaysInYear y =
     (if y mod 4 \<noteq> 0 then 365 else if y mod 100 \<noteq> 0 then 366
      else if y mod 400 \<noteq> 0 then 365 else 366)"

definition DayFromYear :: "int \<Rightarrow> int" where
  "DayFromYear y =
     365 * (y - 1970) + (y - 1969) div 4 - (y - 1901) div 100 + (y - 1601) div 400"

text \<open>
  YearFromTime is the largest year whose first day is not after the day of \<open>t\<close>.  It is
  computed from an estimate by the mean length of a year (146097 days in 400 years), moved
  by one year where the estimate misses.
\<close>

definition YearFromTime :: "int \<Rightarrow> int" where
  "YearFromTime t =
     (let d = Day t; y = 1970 + (400 * d) div 146097
      in if DayFromYear (y + 1) \<le> d then y + 1
         else if d < DayFromYear y then y - 1 else y)"

definition InLeapYear :: "int \<Rightarrow> int" where
  "InLeapYear t = (if DaysInYear (YearFromTime t) = 366 then 1 else 0)"

definition DayWithinYear :: "int \<Rightarrow> int" where
  "DayWithinYear t = Day t - DayFromYear (YearFromTime t)"

definition MonthFromTime :: "int \<Rightarrow> int" where
  "MonthFromTime t =
     (let d = DayWithinYear t; l = InLeapYear t
      in if d < 31 then 0 else if d < 59 + l then 1 else if d < 90 + l then 2
         else if d < 120 + l then 3 else if d < 151 + l then 4 else if d < 181 + l then 5
         else if d < 212 + l then 6 else if d < 243 + l then 7 else if d < 273 + l then 8
         else if d < 304 + l then 9 else if d < 334 + l then 10 else 11)"

text \<open>The day within the year on which month \<open>m\<close> (0 to 11) starts; \<open>l\<close> is 1 in a leap year.\<close>

definition monthStart :: "int \<Rightarrow> int \<Rightarrow> int" where
  "monthStart m l =
     (if m = 0 then 0 else if m = 1 then 31 else if m = 2 then 59 + l
      else if m = 3 then 90 + l else if m = 4 then 120 + l else if m = 5 then 151 + l
      else if m = 6 then 181 + l else if m = 7 then 212 + l else if m = 8 then 243 + l
      else if m = 9 then 273 + l else if m = 10 then 304 + l else 334 + l)"

definition DateFromTime :: "int \<Rightarrow> int" where
  "DateFromTime t = DayWithinYear t - monthStart (MonthFromTime t) (InLeapYear t) + 1"

definition MakeDay :: "int \<Rightarrow> int \<Rightarrow> int \<Rightarrow> int" where
  "MakeDay year month date =
     (let ym = year + month div 12; mn = month mod 12;
          l = (if DaysInYear ym = 366 then 1 else 0)
      in DayFromYear ym + monthStart mn l + date - 1)"

definition MakeDate :: "int \<Rightarrow> int \<Rightarrow> int" where
  "MakeDate day time = day * msPerDay + time"

definition LocalTime :: "int \<Rightarrow> int \<Rightarrow> int" where
  "LocalTime tz t = t + tz"

definition UTC :: "int \<Rightarrow> int \<Rightarrow> int" where
  "UTC tz t = t - tz"

subsection \<open>The methods of Date that the controllers call\<close>

definition getDate :: "int \<Rightarrow> int \<Rightarrow> int" where
  "getDate tz t = DateFromTime (LocalTime tz t)"

definition getMonth :: "int \<Rightarrow> int \<Rightarrow> int" where
  "getMonth tz t = MonthFromTime (LocalTime tz t)"

definition getFullYear :: "int \<Rightarrow> int \<Rightarrow> int" where
  "getFullYear tz t = YearFromTime (LocalTime tz t)"

text \<open>\<open>d.setDate(dt)\<close>; the argument is a number, \<open>None\<close> being NaN.\<close>

definition setDate :: "int \<Rightarrow> int \<Rightarrow> int option \<Rightarrow> JSDate" where
  "setDate tz t dt =
     (case dt of
        None \<Rightarrow> None
      | Some n \<Rightarrow>
          (let lt = LocalTime tz t
           in TimeClip (UTC tz (MakeDate (MakeDay (YearFromTime lt) (MonthFromTime lt) n)
                                  (TimeWithinDay lt)))))"

text \<open>\<open>d.setMonth(m)\<close>: the day of the month is kept, and overflows into the next month.\<close>

definition setMonth :: "int \<Rightarrow> int \<Rightarrow> int \<Rightarrow> JSDate" where
  "setMonth tz t m =
     (let lt = LocalTime tz t
      in TimeClip (UTC tz (MakeDate (MakeDay (YearFromTime lt) m (DateFromTime lt))
                             (TimeWithinDay lt))))"

text \<open>\<open>new Date(year, month, date)\<close>: local midnight; a year from 0 to 99 means 1900 + year.\<close>

definition newDate :: "int \<Rightarrow> int \<Rightarrow> int \<Rightarrow> int \<Rightarrow> JSDate" where
  "newDate tz year month date =
     (let yr = (if 0 \<le> year \<and> year \<le> 99 then 1900 + year else year)
      in TimeClip (UTC tz (MakeDate (MakeDay yr month date) 0)))"


subsection \<open>toISOString\<close>

definition digitChar :: "int \<Rightarrow> char" where
  "digitChar d = ''0123456789'' ! nat (d mod 10)"

text \<open>The last \<open>k\<close> decimal digits of \<open>n\<close>, zero padded.\<close>

fun pad :: "nat \<Rightarrow> int \<Rightarrow> string" where
  "pad 0 n = []"
| "pad (Suc k) n = pad k (n div 10) @ [digitChar n]"

definition isoYear :: "int \<Rightarrow> string" where
  "isoYear y =
     (if 0 \<le> y \<and> y \<le> 9999 then pad 4 y
      else if y < 0 then CHR ''-'' # pad 6 (- y) else CHR ''+'' # pad 6 y)"

text \<open>The UTC fields of a valid time value as \<open>YYYY-MM-DDTHH:mm:ss.sssZ\<close>.\<close>

definition isoString :: "int \<Rightarrow> string" where
  "isoString t =
     isoYear (YearFromTime t) @ ''-'' @ pad 2 (MonthFromTime t + 1) @ ''-''
       @ pad 2 (DateFromTime t) @ ''T'' @ pad 2 (TimeWithinDay t div 3600000) @ '':''
       @ pad 2 (TimeWithinDay t div 60000 mod 60) @ '':''
       @ pad 2 (TimeWithinDay t div 1000 mod 60) @ ''.'' @ pad 3 (TimeWithinDay t mod 1000)
       @ ''Z''"

section \<open>parseInt\<close>

text \<open>
  \<open>parseInt(string)\<close> with no radix: leading white space is skipped, then an optional sign,
  then an optional \<open>0x\<close> or \<open>0X\<close> (which makes the radix 16, otherwise 10), then the longest
  run of digits of the radix.  With no digit the result is NaN (\<open>None\<close>).  The result is
  kept as an exact integer (the language rounds it to a double beyond 2^53).
\<close>

definition isWhiteSpace :: "char \<Rightarrow> bool" where
  "isWhiteSpace c = (of_char c \<in> {9, 10, 11, 12, 13, 32, 160 :: nat})"

definition digitVal :: "char \<Rightarrow> nat option" where
  "digitVal c =
     (let n = (of_char c :: nat)
      in if 48 \<le> n \<and> n \<le> 57 then Some (n - 48)
         else if 97 \<le> n \<and> n \<le> 122 then Some (n - 87)
         else if 65 \<le> n \<and> n \<le> 90 then Some (n - 55) else None)"

definition radixDigit :: "nat \<Rightarrow> char \<Rightarrow> bool" where
  "radixDigit R c = (case digitVal c of None \<Rightarrow> False | Some v \<Rightarrow> v < R)"

definition mathInt :: "nat \<Rightarrow> string \<Rightarrow> int" where
  "mathInt R Z = foldl (\<lambda>a c. a * int R + int (the (digitVal c))) 0 Z"

definition parseInt :: "string \<Rightarrow> int option" where
  "parseInt s =
     (let S = dropWhile isWhiteSpace s;
          sign = (if S \<noteq> [] \<and> hd S = CHR ''-'' then - 1 else 1 :: int);
          S1 = (if S \<noteq> [] \<and> (hd S = CHR ''+'' \<or> hd S = CHR ''-'') then tl S else S);
          hex = (take 2 S1 = ''0x'' \<or> take 2 S1 = ''0X'');
          R = (if hex then 16 else 10);
          S2 = (if hex then drop 2 S1 else S1);
          Z = takeWhile (radixDigit R) S2
      in if Z = [] then None else Some (sign * mathInt R Z))"

section \<open>The collections\<close>

text \<open>
  The models are Mongoose schemas; each stored document carries its \<open>_id\<close> (here \<open>docId\<close>)
  and the two timestamps.  Dates are valid time values in milliseconds; an optional field
  that is absent is \<open>None\<close>.  Amounts of money are exact rationals, counts are integers.
\<close>

record document =
  docId :: nat
  createdAt :: int
  updatedAt :: int

record Product = document +
  name :: string
  sku :: string
  category :: string
  price :: rat
  stock :: int
  minStock :: int
  image :: string
  isActive :: bool
  supplier :: "nat option"

record Supplier = document +
  name_s :: string
  location :: string
  isActive_s :: bool
  agreementEndDate :: "int option"

record User = document +
  fullName :: string
  email :: string
  role :: string
  isActive_u :: bool
  loginCount :: int
  lastLogin :: "int option"

record Quotation = document +
  status :: string
  productCategory :: string
  totalAmount :: rat

record Reservation = document +
  status_r :: string
  email_r :: string

record database =
  products :: "Product list"
  suppliers :: "Supplier list"
  users :: "User list"
  quotations :: "Quotation list"
  reservations :: "Reservation list"

section \<open>Queries and aggregation stages\<close>

datatype error = CastError string | RangeError

definition bindE :: "error + 'a \<Rightarrow> ('a \<Rightarrow> error + 'b) \<Rightarrow> error + 'b" where
  "bindE m f = (case m of Inl e \<Rightarrow> Inl e | Inr x \<Rightarrow> f x)"

text \<open>What a computation throws, if it does.\<close>

definition thrown :: "error + 'a \<Rightarrow> error option" where
  "thrown m = (case m of Inl err \<Rightarrow> Some err | Inr x \<Rightarrow> None)"

text \<open>
  A Date given in a query condition on a date path is cast by Mongoose; an Invalid Date
  makes the query reject with a CastError for that path.
\<close>

definition castDate :: "string \<Rightarrow> JSDate \<Rightarrow> error + int" where
  "castDate path d = (case d of None \<Rightarrow> Inl (CastError path) | Some t \<Rightarrow> Inr t)"

definition countDocuments :: "('d \<Rightarrow> bool) \<Rightarrow> 'd list \<Rightarrow> nat" where
  "countDocuments cond c = length (filter cond c)"

text \<open>\<open>Model.find(cond)\<close>, and \<open>{ $match: cond }\<close>.\<close>

definition findDocs :: "('d \<Rightarrow> bool) \<Rightarrow> 'd list \<Rightarrow> 'd list" where
  "findDocs cond c = filter cond c"

text \<open>A comparison with a date matches only a document that has the field.\<close>

definition dateIs :: "(int \<Rightarrow> bool) \<Rightarrow> int option \<Rightarrow> bool" where
  "dateIs cond f = (case f of None \<Rightarrow> False | Some t \<Rightarrow> cond t)"

text \<open>
  \<open>{ $group: { _id: key, ... } }\<close>: one group for each value of the key, in the order of
  first appearance, with its members in their order.
\<close>

fun groupBy :: "('d \<Rightarrow> 'k) \<Rightarrow> 'd list \<Rightarrow> ('k \<times> 'd list) list" where
  "groupBy key [] = []"
| "groupBy key (x # xs) =
     (key x, x # filter (\<lambda>y. key y = key x) xs)
       # groupBy key (filter (\<lambda>y. key y \<noteq> key x) xs)"

text \<open>\<open>{ $group: { _id: null, ... } }\<close>: a single group, and no document for an empty input.\<close>

definition groupAll :: "('d list \<Rightarrow> 'r) \<Rightarrow> 'd list \<Rightarrow> 'r list" where
  "groupAll acc ds = (if ds = [] then [] else [acc ds])"

text \<open>The accumulators; \<open>$avg\<close>, \<open>$max\<close> and \<open>$min\<close> give null (\<open>None\<close>) with no value.\<close>

definition avgOf :: "rat list \<Rightarrow> rat option" where
  "avgOf vs = (if vs = [] then None else Some (sum_list vs / of_nat (length vs)))"

fun maxOf :: "'a::linorder list \<Rightarrow> 'a option" where
  "maxOf [] = None"
| "maxOf (v # vs) = Some (fold max vs v)"

fun minOf :: "'a::linorder list \<Rightarrow> 'a option" where
  "minOf [] = None"
| "minOf (v # vs) = Some (fold min vs v)"

text \<open>The values of an optional field over the documents that have it.\<close>

definition present :: "('d \<Rightarrow> 'a option) \<Rightarrow> 'd list \<Rightarrow> 'a list" where
  "present f ds = concat (map (\<lambda>d. case f d of None \<Rightarrow> [] | Some v \<Rightarrow> [v]) ds)"

text \<open>
  \<open>$lookup\<close> from suppliers on \<open>_id\<close> followed by \<open>$unwind\<close>: one output for each matching
  supplier, none for a reference that does not resolve.
\<close>

definition lookupUnwind :: "('g \<Rightarrow> nat) \<Rightarrow> Supplier list \<Rightarrow> 'g list \<Rightarrow> ('g \<times> Supplier) list" where
  "lookupUnwind ref ss gs =
     concat (map (\<lambda>g. map (\<lambda>s. (g, s)) (filter (\<lambda>s. docId s = ref g) ss)) gs)"

subsection \<open>What JavaScript does with the first result\<close>

datatype 'a jsval = Undefined | Null | EmptyObject | Object 'a

text \<open>\<open>xs[0]\<close>.\<close>

definition index0 :: "'a list \<Rightarrow> 'a jsval" where
  "index0 xs = (case xs of [] \<Rightarrow> Undefined | x # _ \<Rightarrow> Object x)"

fun truthy :: "'a jsval \<Rightarrow> bool" where
  "truthy Undefined = False"
| "truthy Null = False"
| "truthy EmptyObject = True"
| "truthy (Object x) = True"

text \<open>\<open>a || b\<close>.\<close>

definition jsOr :: "'a jsval \<Rightarrow> 'a jsval \<Rightarrow> 'a jsval" where
  "jsOr a b = (if truthy a then a else b)"

text \<open>\<open>xs[0]?.f || 0\<close> for a numeric field \<open>f\<close>; zero is falsy, and gives the zero on the right.\<close>

definition firstOrZero :: "('a \<Rightarrow> rat) \<Rightarrow> 'a list \<Rightarrow> rat" where
  "firstOrZero f xs = (case xs of [] \<Rightarrow> 0 | x # _ \<Rightarrow> if f x = 0 then 0 else f x)"

section \<open>The request environment\<close>

text \<open>
  \<open>now\<close> is the time value that \<open>new Date()\<close> gives during the request (the clock is held
  fixed within one request), \<open>tz\<close> the offset of the server's local time.
\<close>

record env =
  now :: int
  tz :: int

text \<open>\<open>const { period = '30' } = req.query\<close>: the default stands for an absent parameter only.\<close>

definition periodOf :: "string option \<Rightarrow> string" where
  "periodOf q = (case q of None \<Rightarrow> ''30'' | Some s \<Rightarrow> s)"

text \<open>\<open>d = new Date(); d.setDate(d.getDate() - days)\<close>; \<open>days\<close> may be NaN.\<close>

definition daysAgo :: "env \<Rightarrow> int option \<Rightarrow> JSDate" where
  "daysAgo e days = setDate (tz e) (now e) (map_option (\<lambda>d. getDate (tz e) (now e) - d) days)"

definition startDateOf :: "env \<Rightarrow> string option \<Rightarrow> JSDate" where
  "startDateOf e q = daysAgo e (parseInt (periodOf q))"

text \<open>\<open>Model.countDocuments({ createdAt: { $gte: startDate } })\<close>.\<close>

definition recentCount :: "JSDate \<Rightarrow> 'a document_scheme list \<Rightarrow> error + nat" where
  "recentCount startDate c =
     bindE (castDate ''createdAt'' startDate) (\<lambda>sd. Inr (countDocuments (\<lambda>d. sd \<le> createdAt d) c))"

section \<open>Product report\<close>

record productOverview =
  totalProducts :: nat
  activeProducts :: nat
  lowStockProducts :: nat
  outOfStockProducts :: nat
  recentProducts :: nat

record categoryStat =
  category_c :: string
  count_c :: nat
  totalValue_c :: rat

record stockValueStat =
  totalStockValue :: rat
  avgPrice :: "rat option"
  maxPrice :: "rat option"
  minPrice :: "rat option"

record supplierStat =
  supplier_t :: nat
  productCount :: nat
  totalStockValue_t :: rat

text \<open>\<open>.select('name sku stock minStock image category price')\<close>; \<open>_id\<close> comes with it.\<close>

record lowStockItem =
  docId_l :: nat
  name_l :: string
  sku_l :: string
  stock_l :: int
  minStock_l :: int
  image_l :: string
  category_l :: string
  price_l :: rat

text \<open>\<open>.select('name sku stock image category price updatedAt')\<close>.\<close>

record outOfStockItem =
  docId_o :: nat
  name_o :: string
  sku_o :: string
  stock_o :: int
  image_o :: string
  category_o :: string
  price_o :: rat
  updatedAt_o :: int

record productReport =
  overview_p :: productOverview
  categoryDistribution :: "categoryStat list"
  stockValue :: "stockValueStat jsval"
  topSuppliers :: "(supplierStat \<times> Supplier) list"
  lowStockProductsList :: "lowStockItem list"
  outOfStockProductsList :: "outOfStockItem list"

definition stockValueOf :: "Product \<Rightarrow> rat" where
  "stockValueOf p = price p * of_int (stock p)"

definition selectLowStock :: "Product \<Rightarrow> lowStockItem" where
  "selectLowStock p =
     \<lparr>docId_l = docId p, name_l = name p, sku_l = sku p, stock_l = stock p,
      minStock_l = minStock p, image_l = image p, category_l = category p, price_l = price p\<rparr>"

definition selectOutOfStock :: "Product \<Rightarrow> outOfStockItem" where
  "selectOutOfStock p =
     \<lparr>docId_o = docId p, name_o = name p, sku_o = sku p, stock_o = stock p, image_o = image p,
      category_o = category p, price_o = price p, updatedAt_o = updatedAt p\<rparr>"

text \<open>
  \<open>{ $match: { isActive: true, supplier: { $exists: true } } }\<close>: the active products that
  have a supplier reference, each with its reference.
\<close>

definition withSupplier :: "Product list \<Rightarrow> (nat \<times> Product) list" where
  "withSupplier ps =
     concat (map (\<lambda>p. case supplier p of None \<Rightarrow> [] | Some k \<Rightarrow> [(k, p)]) (findDocs isActive ps))"

definition supplierStatsOf :: "Product list \<Rightarrow> supplierStat list" where
  "supplierStatsOf ps =
     map (\<lambda>(k, ms). \<lparr>supplier_t = k, productCount = length ms,
                       totalStockValue_t = sum_list (map (stockValueOf \<circ> snd) ms)\<rparr>)
       (groupBy fst (withSupplier ps))"

definition categoryStatsOf :: "Product list \<Rightarrow> categoryStat list" where
  "categoryStatsOf ps =
     sort_key (\<lambda>g. - int (count_c g))
       (map (\<lambda>(k, ms). \<lparr>category_c = k, count_c = length ms,
                         totalValue_c = sum_list (map stockValueOf ms)\<rparr>)
          (groupBy category (findDocs isActive ps)))"

definition stockValueStatsOf :: "Product list \<Rightarrow> stockValueStat list" where
  "stockValueStatsOf ps =
     groupAll (\<lambda>ms. \<lparr>totalStockValue = sum_list (map stockValueOf ms),
                      avgPrice = avgOf (map price ms), maxPrice = maxOf (map price ms),
                      minPrice = minOf (map price ms)\<rparr>)
       (findDocs isActive ps)"

definition lowStockListOf :: "Product list \<Rightarrow> lowStockItem list" where
  "lowStockListOf ps =
     sort_key stock_l
       (map selectLowStock
          (findDocs (\<lambda>p. stock p \<le> minStock p \<and> 0 < stock p \<and> isActive p) ps))"

definition outOfStockListOf :: "Product list \<Rightarrow> outOfStockItem list" where
  "outOfStockListOf ps =
     sort_key (\<lambda>p. - updatedAt_o p)
       (map selectOutOfStock (findDocs (\<lambda>p. stock p = 0 \<and> isActive p) ps))"

definition productReportOf :: "env \<Rightarrow> string option \<Rightarrow> database \<Rightarrow> error + productReport" where
  "productReportOf e q db =
     (let startDate = startDateOf e q;
          ps = products db;
          totalProducts = countDocuments (\<lambda>p. True) ps;
          activeProducts = countDocuments isActive ps;
          lowStockProducts = countDocuments (\<lambda>p. stock p \<le> minStock p \<and> isActive p) ps;
          outOfStockProducts = countDocuments (\<lambda>p. stock p = 0 \<and> isActive p) ps;
          categoryStats = categoryStatsOf ps;
          stockValueStats = stockValueStatsOf ps
      in bindE (recentCount startDate ps) (\<lambda>recentProducts.
           let supplierStats =
                 take 10 (sort_key (\<lambda>(g, s). - int (productCount g))
                            (lookupUnwind supplier_t (suppliers db) (supplierStatsOf ps)));
               lowStockProductsList = lowStockListOf ps;
               outOfStockProductsList = outOfStockListOf ps
           in Inr \<lparr>overview_p =
                      \<lparr>totalProducts = totalProducts, activeProducts = activeProducts,
                       lowStockProducts = lowStockProducts,
                       outOfStockProducts = outOfStockProducts,
                       recentProducts = recentProducts\<rparr>,
                    categoryDistribution = categoryStats,
                    stockValue = jsOr (index0 stockValueStats) EmptyObject,
                    topSuppliers = supplierStats,
                    lowStockProductsList = lowStockProductsList,
                    outOfStockProductsList = outOfStockProductsList\<rparr>))"

section \<open>Supplier report\<close>








section \<open>User report\<close>

record userOverview =
  totalUsers :: nat
  adminUsers :: nat
  customerUsers :: nat
  recentRegistrations :: nat
  activeUsers :: nat

record registrationPoint =
  date_r :: string
  count_r :: nat

record activityPoint =
  date_a :: string
  activeUsers_a :: nat

text \<open>\<open>.select('fullName email loginCount lastLogin')\<close>.\<close>

record topUser =
  docId_t :: nat
  fullName_t :: string
  email_t :: string
  loginCount_t :: int
  lastLogin_t :: "int option"

text \<open>
  The single group over all users.  \<open>$avg\<close> skips values that are not numbers, and a date
  is not one: \<open>avgLastLogin\<close> is null.
\<close>

record activityStat =
  avgLastLogin :: "rat option"
  maxLastLogin :: "int option"
  minLastLogin :: "int option"
  avgLoginCount :: "rat option"
  maxLoginCount :: "int option"
  totalLogins :: int

datatype bucketId = Bound int | Default string

record bucketMember =
  name_b :: string
  email_b :: string
  loginCount_b :: int

record loginBucket =
  id_b :: bucketId
  count_b :: nat
  users_b :: "bucketMember list"

record userReport =
  overview_u :: userOverview
  registrationTrends :: "registrationPoint list"
  activityStats :: "activityStat jsval"
  topActiveUsers :: "topUser list"
  loginDistribution :: "loginBucket list"
  activityTrends :: "activityPoint list"

text \<open>\<open>for (let i = n - 1; i >= 0; i--) { acc.push(body(i)) }\<close>, stopping at the first throw.\<close>

fun forDown :: "(int \<Rightarrow> error + 'p) \<Rightarrow> nat \<Rightarrow> 'p list \<Rightarrow> error + 'p list" where
  "forDown body 0 acc = Inr acc"
| "forDown body (Suc k) acc = bindE (body (int k)) (\<lambda>p. forDown body k (acc @ [p]))"

text \<open>\<open>nextDate = new Date(date); nextDate.setDate(nextDate.getDate() + 1)\<close>.\<close>

definition nextDay :: "int \<Rightarrow> JSDate \<Rightarrow> JSDate" where
  "nextDay z d = (case d of None \<Rightarrow> None | Some t \<Rightarrow> setDate z t (Some (getDate z t + 1)))"

definition toISOString :: "JSDate \<Rightarrow> error + string" where
  "toISOString d = (case d of None \<Rightarrow> Inl RangeError | Some t \<Rightarrow> Inr (isoString t))"

text \<open>\<open>s.split('T')[0]\<close>.\<close>

definition beforeT :: "string \<Rightarrow> string" where
  "beforeT s = takeWhile (\<lambda>c. c \<noteq> CHR ''T'') s"

text \<open>
  One turn of a seven-day loop: the documents whose date field lies from \<open>date\<close> (this
  instant, \<open>i\<close> days ago) up to, and not including, the same instant a day later.
\<close>

definition dayWindowCount :: "env \<Rightarrow> string \<Rightarrow> ('d \<Rightarrow> int option) \<Rightarrow> 'd list \<Rightarrow> int \<Rightarrow> error + string \<times> nat" where
  "dayWindowCount e path field c i =
     (let date = daysAgo e (Some i);
          nextDate = nextDay (tz e) date
      in bindE (castDate path date) (\<lambda>d.
         bindE (castDate path nextDate) (\<lambda>n.
           let count = countDocuments (\<lambda>u. dateIs (\<lambda>t. d \<le> t \<and> t < n) (field u)) c
           in bindE (toISOString date) (\<lambda>s. Inr (beforeT s, count)))))"

definition registrationTrendsOf :: "env \<Rightarrow> User list \<Rightarrow> error + registrationPoint list" where
  "registrationTrendsOf e us =
     forDown (\<lambda>i. bindE (dayWindowCount e ''createdAt'' (\<lambda>u. Some (createdAt u)) us i)
                     (\<lambda>(d, n). Inr \<lparr>date_r = d, count_r = n\<rparr>)) 7 []"

definition activityTrendsOf :: "env \<Rightarrow> User list \<Rightarrow> error + activityPoint list" where
  "activityTrendsOf e us =
     forDown (\<lambda>i. bindE (dayWindowCount e ''lastLogin'' lastLogin us i)
                     (\<lambda>(d, n). Inr \<lparr>date_a = d, activeUsers_a = n\<rparr>)) 7 []"

definition selectTopUser :: "User \<Rightarrow> topUser" where
  "selectTopUser u =
     \<lparr>docId_t = docId u, fullName_t = fullName u, email_t = email u,
      loginCount_t = loginCount u, lastLogin_t = lastLogin u\<rparr>"

definition activityStatsOf :: "User list \<Rightarrow> activityStat list" where
  "activityStatsOf us =
     groupAll (\<lambda>ms. \<lparr>avgLastLogin = None, maxLastLogin = maxOf (present lastLogin ms),
                      minLastLogin = minOf (present lastLogin ms),
                      avgLoginCount = avgOf (map (of_int \<circ> loginCount) ms),
                      maxLoginCount = maxOf (map loginCount ms),
                      totalLogins = sum_list (map loginCount ms)\<rparr>) us"

text \<open>
  \<open>$bucket\<close>: a value goes to the bucket of the lower boundary \<open>b\<close> with \<open>b \<le> v\<close> and \<open>v\<close> below
  the next boundary, and to the default bucket when it is in none.
\<close>

fun bucketOf :: "int list \<Rightarrow> string \<Rightarrow> int \<Rightarrow> bucketId" where
  "bucketOf (b # b' # bs) dflt v =
     (if b \<le> v \<and> v < b' then Bound b else bucketOf (b' # bs) dflt v)"
| "bucketOf bs dflt v = Default dflt"

text \<open>The order of \<open>_id\<close> values in a sort: a number is before a string.\<close>

fun bucketKey :: "bucketId \<Rightarrow> nat \<times> int" where
  "bucketKey (Bound b) = (0, b)"
| "bucketKey (Default s) = (1, 0)"

text \<open>The boundaries and the default of the \<open>$bucket\<close> stage of the user report.\<close>

definition loginBucketOf :: "int \<Rightarrow> bucketId" where
  "loginBucketOf c = bucketOf [0, 1, 5, 10, 20, 50, 100] ''100+'' c"

text \<open>\<open>{ name: '$fullName', email: '$email', loginCount: '$loginCount' }\<close>.\<close>

definition bucketMemberOf :: "User \<Rightarrow> bucketMember" where
  "bucketMemberOf u = \<lparr>name_b = fullName u, email_b = email u, loginCount_b = loginCount u\<rparr>"

definition loginDistributionOf :: "User list \<Rightarrow> loginBucket list" where
  "loginDistributionOf us =
     sort_key (bucketKey \<circ> id_b)
       (map (\<lambda>(k, ms). \<lparr>id_b = k, count_b = length ms, users_b = map bucketMemberOf ms\<rparr>)
          (groupBy (\<lambda>u. loginBucketOf (loginCount u)) us))"

definition userReportOf :: "env \<Rightarrow> string option \<Rightarrow> database \<Rightarrow> error + userReport" where
  "userReportOf e q db =
     (let startDate = startDateOf e q;
          us = users db;
          totalUsers = countDocuments (\<lambda>u. True) us;
          adminUsers = countDocuments (\<lambda>u. role u = ''admin'') us;
          customerUsers = countDocuments (\<lambda>u. role u = ''customer'') us
      in bindE (recentCount startDate us) (\<lambda>recentRegistrations.
         bindE (registrationTrendsOf e us) (\<lambda>registrationTrends.
         bindE (castDate ''lastLogin'' (daysAgo e (Some 30))) (\<lambda>thirtyDaysAgo.
           let activeUsers =
                 countDocuments (\<lambda>u. dateIs (\<lambda>t. thirtyDaysAgo \<le> t) (lastLogin u)) us;
               topActiveUsers =
                 take 5 (sort_key (\<lambda>u. - loginCount_t u)
                           (map selectTopUser (findDocs (\<lambda>u. role u = ''customer'') us)));
               activityStats = activityStatsOf us;
               loginDistribution = loginDistributionOf us
           in bindE (activityTrendsOf e us) (\<lambda>activityTrends.
                Inr \<lparr>overview_u =
                       \<lparr>totalUsers = totalUsers, adminUsers = adminUsers,
                        customerUsers = customerUsers,
                        recentRegistrations = recentRegistrations, activeUsers = activeUsers\<rparr>,
                     registrationTrends = registrationTrends,
                     activityStats = jsOr (index0 activityStats) EmptyObject,
                     topActiveUsers = topActiveUsers,
                     loginDistribution = loginDistribution,
                     activityTrends = activityTrends\<rparr>)))))"

section \<open>Quotation report\<close>

record quotationOverview =
  totalQuotations :: nat
  pendingQuotations :: nat
  processingQuotations :: nat
  completedQuotations :: nat
  rejectedQuotations :: nat
  recentQuotations :: nat

record revenueStat =
  totalRevenue :: rat
  avgQuotationValue :: "rat option"
  maxQuotationValue :: "rat option"
  minQuotationValue :: "rat option"

record quotationCategoryStat =
  category_q :: string
  count_q :: nat
  totalValue_q :: rat

record quotationMonth =
  month_q :: string
  count_m :: nat
  revenue :: rat

record responseTimeStat =
  avgResponseTime :: "rat option"
  maxResponseTime :: "int option"
  minResponseTime :: "int option"

record quotationReport =
  overview_q :: quotationOverview
  revenueStats :: "revenueStat jsval"
  categoryStats :: "quotationCategoryStat list"
  monthlyTrends :: "quotationMonth list"
  responseTimeStats :: "responseTimeStat jsval"

definition revenueStatsOf :: "Quotation list \<Rightarrow> revenueStat list" where
  "revenueStatsOf qs =
     groupAll (\<lambda>ms. \<lparr>totalRevenue = sum_list (map totalAmount ms),
                      avgQuotationValue = avgOf (map totalAmount ms),
                      maxQuotationValue = maxOf (map totalAmount ms),
                      minQuotationValue = minOf (map totalAmount ms)\<rparr>)
       (findDocs (\<lambda>x. status x = ''completed'') qs)"

definition quotationCategoryStatsOf :: "Quotation list \<Rightarrow> quotationCategoryStat list" where
  "quotationCategoryStatsOf qs =
     sort_key (\<lambda>g. - int (count_q g))
       (map (\<lambda>(k, ms). \<lparr>category_q = k, count_q = length ms,
                         totalValue_q = sum_list (map totalAmount ms)\<rparr>)
          (groupBy productCategory qs))"

text \<open>
  \<open>date = new Date(); date.setMonth(date.getMonth() - i)\<close>, then
  \<open>startOfMonth = new Date(date.getFullYear(), date.getMonth(), 1)\<close> and
  \<open>endOfMonth = new Date(date.getFullYear(), date.getMonth() + 1, 0)\<close>.
\<close>

definition monthBounds :: "env \<Rightarrow> int \<Rightarrow> JSDate \<times> JSDate" where
  "monthBounds e i =
     (case setMonth (tz e) (now e) (getMonth (tz e) (now e) - i) of
        None \<Rightarrow> (None, None)
      | Some date \<Rightarrow>
          (newDate (tz e) (getFullYear (tz e) date) (getMonth (tz e) date) 1,
           newDate (tz e) (getFullYear (tz e) date) (getMonth (tz e) date + 1) 0))"

text \<open>\<open>s.substring(0, 7)\<close>.\<close>

definition monthLabel :: "JSDate \<Rightarrow> error + string" where
  "monthLabel d = bindE (toISOString d) (\<lambda>s. Inr (take 7 s))"

definition responseTimeStatsOf :: "'a document_scheme list \<Rightarrow> responseTimeStat list" where
  "responseTimeStatsOf ds =
     groupAll (\<lambda>ms. let rs = map (\<lambda>d. updatedAt d - createdAt d) ms
                     in \<lparr>avgResponseTime = avgOf (map of_int rs), maxResponseTime = maxOf rs,
                         minResponseTime = minOf rs\<rparr>) ds"

definition quotationMonthAt :: "env \<Rightarrow> Quotation list \<Rightarrow> int \<Rightarrow> error + quotationMonth" where
  "quotationMonthAt e qs i =
     (let (startOfMonth, endOfMonth) = monthBounds e i
      in bindE (castDate ''createdAt'' startOfMonth) (\<lambda>s.
         bindE (castDate ''createdAt'' endOfMonth) (\<lambda>n.
           let count = countDocuments (\<lambda>x. s \<le> createdAt x \<and> createdAt x \<le> n) qs;
               revenue =
                 groupAll (\<lambda>ms. sum_list (map totalAmount ms))
                   (findDocs (\<lambda>x. s \<le> createdAt x \<and> createdAt x \<le> n \<and> status x = ''completed'')
                      qs)
           in bindE (monthLabel startOfMonth) (\<lambda>m.
                Inr \<lparr>month_q = m, count_m = count, revenue = firstOrZero id revenue\<rparr>))))"

definition quotationReportOf :: "env \<Rightarrow> string option \<Rightarrow> database \<Rightarrow> error + quotationReport" where
  "quotationReportOf e q db =
     (let startDate = startDateOf e q;
          qs = quotations db;
          totalQuotations = countDocuments (\<lambda>x. True) qs;
          pendingQuotations = countDocuments (\<lambda>x. status x = ''pending'') qs;
          processingQuotations = countDocuments (\<lambda>x. status x = ''processing'') qs;
          completedQuotations = countDocuments (\<lambda>x. status x = ''completed'') qs;
          rejectedQuotations = countDocuments (\<lambda>x. status x = ''rejected'') qs
      in bindE (recentCount startDate qs) (\<lambda>recentQuotations.
           let revenueStats = revenueStatsOf qs;
               categoryStats = quotationCategoryStatsOf qs
           in bindE (forDown (quotationMonthAt e qs) 6 []) (\<lambda>monthlyTrends.
                let responseTimeStats =
                      responseTimeStatsOf
                        (findDocs (\<lambda>x. status x = ''completed'' \<or> status x = ''rejected'') qs)
                in Inr \<lparr>overview_q =
                           \<lparr>totalQuotations = totalQuotations,
                            pendingQuotations = pendingQuotations,
                            processingQuotations = processingQuotations,
                            completedQuotations = completedQuotations,
                            rejectedQuotations = rejectedQuotations,
                            recentQuotations = recentQuotations\<rparr>,
                         revenueStats = jsOr (index0 revenueStats) EmptyObject,
                         categoryStats = categoryStats,
                         monthlyTrends = monthlyTrends,
                         responseTimeStats = jsOr (index0 responseTimeStats) EmptyObject\<rparr>)))"

section \<open>Reservation report\<close>

record reservationOverview =
  totalReservations :: nat
  pendingReservations :: nat
  confirmedReservations :: nat
  completedReservations :: nat
  cancelledReservations :: nat
  recentReservations :: nat

record reservationMonth =
  month_r :: string
  count_v :: nat

record customerStat =
  email_k :: string
  reservationCount :: nat

record statusStat =
  status_k :: string
  count_k :: nat

record reservationReport =
  overview_r :: reservationOverview
  monthlyTrends_r :: "reservationMonth list"
  topCustomers :: "customerStat list"
  statusDistribution :: "statusStat list"
  responseTimeStats_r :: "responseTimeStat jsval"

definition reservationMonthAt :: "env \<Rightarrow> Reservation list \<Rightarrow> int \<Rightarrow> error + reservationMonth" where
  "reservationMonthAt e rs i =
     (let (startOfMonth, endOfMonth) = monthBounds e i
      in bindE (castDate ''createdAt'' startOfMonth) (\<lambda>s.
         bindE (castDate ''createdAt'' endOfMonth) (\<lambda>n.
           let count = countDocuments (\<lambda>x. s \<le> createdAt x \<and> createdAt x \<le> n) rs
           in bindE (monthLabel startOfMonth) (\<lambda>m. Inr \<lparr>month_r = m, count_v = count\<rparr>))))"

definition reservationReportOf :: "env \<Rightarrow> string option \<Rightarrow> database \<Rightarrow> error + reservationReport" where
  "reservationReportOf e q db =
     (let startDate = startDateOf e q;
          rs = reservations db;
          totalReservations = countDocuments (\<lambda>x. True) rs;
          pendingReservations = countDocuments (\<lambda>x. status_r x = ''pending'') rs;
          confirmedReservations = countDocuments (\<lambda>x. status_r x = ''confirmed'') rs;
          completedReservations = countDocuments (\<lambda>x. status_r x = ''completed'') rs;
          cancelledReservations = countDocuments (\<lambda>x. status_r x = ''cancelled'') rs
      in bindE (recentCount startDate rs) (\<lambda>recentReservations.
         bindE (forDown (reservationMonthAt e rs) 6 []) (\<lambda>monthlyTrends.
           let customerStats =
                 take 10 (sort_key (\<lambda>g. - int (reservationCount g))
                            (map (\<lambda>(k, ms). \<lparr>email_k = k, reservationCount = length ms\<rparr>)
                               (groupBy email_r rs)));
               statusDistribution =
                 sort_key (\<lambda>g. - int (count_k g))
                   (map (\<lambda>(k, ms). \<lparr>status_k = k, count_k = length ms\<rparr>) (groupBy status_r rs));
               responseTimeStats =
                 responseTimeStatsOf
                   (findDocs (\<lambda>x. status_r x = ''confirmed'' \<or> status_r x = ''completed''
                                  \<or> status_r x = ''cancelled'') rs)
           in Inr \<lparr>overview_r =
                      \<lparr>totalReservations = totalReservations,
                       pendingReservations = pendingReservations,
                       confirmedReservations = confirmedReservations,
                       completedReservations = completedReservations,
                       cancelledReservations = cancelledReservations,
                       recentReservations = recentReservations\<rparr>,
                    monthlyTrends_r = monthlyTrends,
                    topCustomers = customerStats,
                    statusDistribution = statusDistribution,
                    responseTimeStats_r = jsOr (index0 responseTimeStats) EmptyObject\<rparr>)))"

section \<open>Dashboard overview\<close>






section \<open>The controllers and the route\<close>













subsection \<open>The \<open>protect\<close> middleware\<close>








section \<open>Example data\<close>


definition exampleEnv :: env where
  "exampleEnv = \<lparr>now = 1717156800000, tz = 0\<rparr>"

definition emptyDb :: database where
  "emptyDb = \<lparr>products = [], suppliers = [], users = [], quotations = [], reservations = []\<rparr>"






definition exampleQuotation :: "nat \<Rightarrow> string \<Rightarrow> rat \<Rightarrow> int \<Rightarrow> Quotation" where
  "exampleQuotation i st amount created =
     \<lparr>docId = i, createdAt = created, updatedAt = created + 3600000, status = st,
      productCategory = ''tools'', totalAmount = amount\<rparr>"

definition exampleQuotations :: "Quotation list" where
  "exampleQuotations =
     [exampleQuotation 1 ''completed'' 100 1717149600000,
      exampleQuotation 2 ''completed'' 200 1714564800000,
      exampleQuotation 3 ''pending'' 50 1714564800000]"

definition exampleUser :: "nat \<Rightarrow> int \<Rightarrow> int option \<Rightarrow> int \<Rightarrow> User" where
  "exampleUser i c l created =
     \<lparr>docId = i, createdAt = created, updatedAt = created, fullName = ''user'',
      email = ''user@example.com'', role = ''customer'', isActive_u = True, loginCount = c,
      lastLogin = l\<rparr>"

definition exampleUsers :: "User list" where
  "exampleUsers =
     [exampleUser 1 0 None 1715335200000, exampleUser 2 7 (Some 1715335200000) 1715300000000,
      exampleUser 3 150 None 1700000000000, exampleUser 4 5 None 1700000000000,
      exampleUser 5 99 None 1700000000000]"











text \<open>An afternoon: 2024-05-10T15:00:00.000Z, on a server whose local time is UTC.\<close>

definition afternoonEnv :: env where
  "afternoonEnv = \<lparr>now = 1715353200000, tz = 0\<rparr>"

definition exampleReservations :: "Reservation list" where
  "exampleReservations =
     [\<lparr>docId = 1, createdAt = 1717149600000, updatedAt = 1717149600000, status_r = ''pending'',
       email_r = ''guest@example.com''\<rparr>]"

text \<open>The UTC calendar day and month of a time value, as the labels of the series spell them.\<close>

definition dayOf :: "int \<Rightarrow> string" where
  "dayOf t = beforeT (isoString t)"

definition monthOf :: "int \<Rightarrow> string" where
  "monthOf t = take 7 (isoString t)"

chapter \<open>Properties\<close>

section \<open>Moving a date by whole days\<close>






section \<open>Product report: stock counts and lists\<close>

lemma bindE_Inr: "bindE m f = Inr r \<Longrightarrow> \<exists>x. m = Inr x \<and> f x = Inr r"
  by (cases m) (simp_all add: bindE_def)



lemma productReportOf_Inr:
  assumes "productReportOf e q db = Inr r"
  shows "lowStockProducts (overview_p r)
           = countDocuments (\<lambda>p. stock p \<le> minStock p \<and> isActive p) (products db)"
    and "outOfStockProducts (overview_p r)
           = countDocuments (\<lambda>p. stock p = 0 \<and> isActive p) (products db)"
    and "lowStockProductsList r = lowStockListOf (products db)"
    and "outOfStockProductsList r = outOfStockListOf (products db)"
    and "stockValue r = jsOr (index0 (stockValueStatsOf (products db))) EmptyObject"
    and "categoryDistribution r = categoryStatsOf (products db)"
    and "recentCount (startDateOf e q) (products db) = Inr (recentProducts (overview_p r))"
    and "totalProducts (overview_p r) = length (products db)"
  using assms unfolding productReportOf_def Let_def
  by (auto dest!: bindE_Inr simp: countDocuments_def)













section \<open>Supplier report: agreements\<close>






section \<open>Revenue on the dashboard and in the quotation report\<close>

lemma userReportOf_Inr:
  assumes "userReportOf e q db = Inr r"
  shows "recentCount (startDateOf e q) (users db) = Inr (recentRegistrations (overview_u r))"
    and "registrationTrendsOf e (users db) = Inr (registrationTrends r)"
    and "activityTrendsOf e (users db) = Inr (activityTrends r)"
    and "activityStats r = jsOr (index0 (activityStatsOf (users db))) EmptyObject"
    and "loginDistribution r = loginDistributionOf (users db)"
    and "totalUsers (overview_u r) = length (users db)"
    and "topActiveUsers r
           = take 5 (sort_key (\<lambda>u. - loginCount_t u)
                       (map selectTopUser (findDocs (\<lambda>u. role u = ''customer'') (users db))))"
  using assms unfolding userReportOf_def Let_def
  by (auto dest!: bindE_Inr simp: countDocuments_def)

lemma quotationReportOf_Inr:
  assumes "quotationReportOf e q db = Inr r"
  shows "recentCount (startDateOf e q) (quotations db) = Inr (recentQuotations (overview_q r))"
    and "forDown (quotationMonthAt e (quotations db)) 6 [] = Inr (monthlyTrends r)"
    and "revenueStats r = jsOr (index0 (revenueStatsOf (quotations db))) EmptyObject"
    and "responseTimeStats r
           = jsOr (index0 (responseTimeStatsOf
                             (findDocs (\<lambda>x. status x = ''completed'' \<or> status x = ''rejected'')
                                (quotations db)))) EmptyObject"
    and "categoryStats r = quotationCategoryStatsOf (quotations db)"
  using assms unfolding quotationReportOf_def Let_def
  by (auto dest!: bindE_Inr)

lemma reservationReportOf_Inr:
  assumes "reservationReportOf e q db = Inr r"
  shows "recentCount (startDateOf e q) (reservations db)
           = Inr (recentReservations (overview_r r))"
    and "forDown (reservationMonthAt e (reservations db)) 6 [] = Inr (monthlyTrends_r r)"
    and "responseTimeStats_r r
           = jsOr (index0 (responseTimeStatsOf
                             (findDocs (\<lambda>x. status_r x = ''confirmed'' \<or> status_r x = ''completed''
                                            \<or> status_r x = ''cancelled'') (reservations db))))
               EmptyObject"
    and "topCustomers r
           = take 10 (sort_key (\<lambda>g. - int (reservationCount g))
                        (map (\<lambda>(k, ms). \<lparr>email_k = k, reservationCount = length ms\<rparr>)
                           (groupBy email_r (reservations db))))"
    and "statusDistribution r
           = sort_key (\<lambda>g. - int (count_k g))
               (map (\<lambda>(k, ms). \<lparr>status_k = k, count_k = length ms\<rparr>)
                  (groupBy status_r (reservations db)))"
  using assms unfolding reservationReportOf_def Let_def
  by (auto dest!: bindE_Inr)


lemma jsOr_index0:
  "jsOr (index0 xs) EmptyObject = (case xs of [] \<Rightarrow> EmptyObject | x # _ \<Rightarrow> Object x)"
  by (cases xs) (simp_all add: jsOr_def index0_def)

lemma groupAll_Nil [simp]: "groupAll f [] = []"
  by (simp add: groupAll_def)





lemma not_isl_Inr: "\<not> isl m \<Longrightarrow> \<exists>r. m = Inr r"
  by (cases m) simp_all




section \<open>Aggregations that match nothing\<close>

lemma thrown_bindE:
  "thrown (bindE m f) = (case m of Inl err \<Rightarrow> Some err | Inr x \<Rightarrow> thrown (f x))"
  by (cases m) (simp_all add: thrown_def bindE_def)

lemma thrown_Inr [simp]: "thrown (Inr x) = None"
  by (simp add: thrown_def)

lemma thrown_bindE_Inr2: "thrown (bindE m (\<lambda>(a, b). Inr (g a b))) = thrown m"
  by (cases m) (simp_all add: thrown_def bindE_def split: prod.splits)

lemma thrown_recentCount: "thrown (recentCount d c) = thrown (castDate ''createdAt'' d)"
  by (cases d) (simp_all add: recentCount_def castDate_def bindE_def thrown_def)

lemma thrown_forDown:
  assumes "\<And>i. thrown (b i) = thrown (b' i)"
  shows "thrown (forDown b n acc) = thrown (forDown b' n acc')"
proof (induction n arbitrary: acc acc')
  case 0
  show ?case by simp
next
  case (Suc n)
  show ?case
    using assms [of "int n"] Suc.IH
    by (cases "b (int n)"; cases "b' (int n)") (simp_all add: bindE_def thrown_def)
qed

text \<open>What a turn of a loop throws is settled by its dates alone.\<close>

lemma thrown_dayWindowCount:
  "thrown (dayWindowCount e path f c i)
     = (case daysAgo e (Some i) of
          None \<Rightarrow> Some (CastError path)
        | Some d \<Rightarrow> (case nextDay (tz e) (Some d) of None \<Rightarrow> Some (CastError path) | Some n \<Rightarrow> None))"
proof (cases "daysAgo e (Some i)")
  case None
  then show ?thesis
    by (simp add: dayWindowCount_def Let_def castDate_def bindE_def thrown_def)
next
  case (Some d)
  then show ?thesis
    by (cases "nextDay (tz e) (Some d)")
      (simp_all add: dayWindowCount_def Let_def castDate_def bindE_def thrown_def toISOString_def)
qed

lemma thrown_monthLabel: "thrown (monthLabel (Some t)) = None"
  by (simp add: monthLabel_def toISOString_def bindE_def)

lemma thrown_quotationMonthAt:
  "thrown (quotationMonthAt e qs i)
     = (case monthBounds e i of
          (None, b) \<Rightarrow> Some (CastError ''createdAt'')
        | (Some a, None) \<Rightarrow> Some (CastError ''createdAt'')
        | (Some a, Some b) \<Rightarrow> None)"
proof (cases "monthBounds e i")
  case (Pair a b)
  then show ?thesis
    by (cases a; cases b)
      (simp_all add: quotationMonthAt_def Let_def castDate_def bindE_def thrown_def
        monthLabel_def toISOString_def)
qed

lemma thrown_reservationMonthAt:
  "thrown (reservationMonthAt e rs i)
     = (case monthBounds e i of
          (None, b) \<Rightarrow> Some (CastError ''createdAt'')
        | (Some a, None) \<Rightarrow> Some (CastError ''createdAt'')
        | (Some a, Some b) \<Rightarrow> None)"
proof (cases "monthBounds e i")
  case (Pair a b)
  then show ?thesis
    by (cases a; cases b)
      (simp_all add: reservationMonthAt_def Let_def castDate_def bindE_def thrown_def
        monthLabel_def toISOString_def)
qed

lemma thrown_registrationTrendsOf:
  "thrown (registrationTrendsOf e us) = thrown (registrationTrendsOf e us')"
  unfolding registrationTrendsOf_def
  by (rule thrown_forDown) (simp add: thrown_bindE_Inr2 thrown_dayWindowCount)

lemma thrown_activityTrendsOf:
  "thrown (activityTrendsOf e us) = thrown (activityTrendsOf e us')"
  unfolding activityTrendsOf_def
  by (rule thrown_forDown) (simp add: thrown_bindE_Inr2 thrown_dayWindowCount)


lemma thrown_bindE_cong:
  assumes "thrown m = thrown m'" and "\<And>x y. thrown (f x) = thrown (g y)"
  shows "thrown (bindE m f) = thrown (bindE m' g)"
  using assms by (cases m; cases m') (simp_all add: thrown_def bindE_def)

lemma thrown_recentCount_any: "thrown (recentCount d c) = thrown (recentCount d c')"
  by (simp add: thrown_recentCount)

lemma thrown_forDown_quotationMonthAt:
  "thrown (forDown (quotationMonthAt e qs) n acc) = thrown (forDown (quotationMonthAt e qs') n acc')"
  by (rule thrown_forDown) (simp add: thrown_quotationMonthAt)

lemma thrown_forDown_reservationMonthAt:
  "thrown (forDown (reservationMonthAt e rs) n acc)
     = thrown (forDown (reservationMonthAt e rs') n acc')"
  by (rule thrown_forDown) (simp add: thrown_reservationMonthAt)

lemma thrown_productReportOf:
  "thrown (productReportOf e q db) = thrown (productReportOf e q db')"
  unfolding productReportOf_def Let_def
  by (intro thrown_bindE_cong thrown_recentCount_any) simp

lemma thrown_userReportOf:
  "thrown (userReportOf e q db) = thrown (userReportOf e q db')"
  unfolding userReportOf_def Let_def
  by (intro thrown_bindE_cong thrown_recentCount_any thrown_registrationTrendsOf
      thrown_activityTrendsOf refl) simp

lemma thrown_quotationReportOf:
  "thrown (quotationReportOf e q db) = thrown (quotationReportOf e q db')"
  unfolding quotationReportOf_def Let_def
  by (intro thrown_bindE_cong thrown_recentCount_any thrown_forDown_quotationMonthAt) simp

lemma thrown_reservationReportOf:
  "thrown (reservationReportOf e q db) = thrown (reservationReportOf e q db')"
  unfolding reservationReportOf_def Let_def
  by (intro thrown_bindE_cong thrown_recentCount_any thrown_forDown_reservationMonthAt) simp

lemma activityStatsOf_Nil: "activityStatsOf [] = []"
  by (simp add: activityStatsOf_def)

lemma responseTimeStatsOf_Nil: "responseTimeStatsOf [] = []"
  by (simp add: responseTimeStatsOf_def)

lemma jsOr_index0_defined:
  "jsOr (index0 xs) EmptyObject \<noteq> Null \<and> jsOr (index0 xs) EmptyObject \<noteq> Undefined"
  by (cases xs) (simp_all add: jsOr_def index0_def)

lemma filter_empty_conv': "countDocuments c ds = 0 \<longleftrightarrow> filter c ds = []"
  by (simp add: countDocuments_def)

lemma product_empty_fields:
  assumes "productReportOf e q db = Inr r"
  shows "stockValue r \<noteq> Null \<and> stockValue r \<noteq> Undefined"
    and "filter isActive (products db) = [] \<Longrightarrow>
           stockValue r = EmptyObject \<and> categoryDistribution r = []
           \<and> lowStockProductsList r = [] \<and> outOfStockProductsList r = []"
proof -
  note R = productReportOf_Inr [OF assms]
  show "stockValue r \<noteq> Null \<and> stockValue r \<noteq> Undefined"
    unfolding R(5) by (rule jsOr_index0_defined)
  assume a: "filter isActive (products db) = []"
  then have "filter (\<lambda>p. stock p \<le> minStock p \<and> 0 < stock p \<and> isActive p) (products db) = []"
    and "filter (\<lambda>p. stock p = 0 \<and> isActive p) (products db) = []"
    by (auto simp: filter_empty_conv)
  then show "stockValue r = EmptyObject \<and> categoryDistribution r = []
           \<and> lowStockProductsList r = [] \<and> outOfStockProductsList r = []"
    using a
    by (simp add: R(3,4,5,6) stockValueStatsOf_def categoryStatsOf_def lowStockListOf_def
        outOfStockListOf_def findDocs_def jsOr_index0)
qed

lemma quotation_empty_fields:
  assumes "quotationReportOf e q db = Inr r"
  shows "revenueStats r \<noteq> Null \<and> revenueStats r \<noteq> Undefined
         \<and> responseTimeStats r \<noteq> Null \<and> responseTimeStats r \<noteq> Undefined"
    and "filter (\<lambda>x. status x = ''completed'') (quotations db) = [] \<Longrightarrow>
           revenueStats r = EmptyObject"
    and "filter (\<lambda>x. status x = ''completed'' \<or> status x = ''rejected'') (quotations db) = [] \<Longrightarrow>
           responseTimeStats r = EmptyObject"
    and "quotations db = [] \<Longrightarrow> categoryStats r = []"
proof -
  note R = quotationReportOf_Inr [OF assms]
  show "revenueStats r \<noteq> Null \<and> revenueStats r \<noteq> Undefined
         \<and> responseTimeStats r \<noteq> Null \<and> responseTimeStats r \<noteq> Undefined"
    unfolding R(3,4) by (simp add: jsOr_index0_defined)
  show "filter (\<lambda>x. status x = ''completed'') (quotations db) = [] \<Longrightarrow>
           revenueStats r = EmptyObject"
    by (simp add: R(3) revenueStatsOf_def findDocs_def jsOr_index0)
  show "filter (\<lambda>x. status x = ''completed'' \<or> status x = ''rejected'') (quotations db) = [] \<Longrightarrow>
           responseTimeStats r = EmptyObject"
    by (simp add: R(4) findDocs_def responseTimeStatsOf_Nil jsOr_index0)
  show "quotations db = [] \<Longrightarrow> categoryStats r = []"
    by (simp add: R(5) quotationCategoryStatsOf_def)
qed

lemma reservation_empty_fields:
  assumes "reservationReportOf e q db = Inr r"
  shows "responseTimeStats_r r \<noteq> Null \<and> responseTimeStats_r r \<noteq> Undefined"
    and "filter (\<lambda>x. status_r x = ''confirmed'' \<or> status_r x = ''completed''
                      \<or> status_r x = ''cancelled'') (reservations db) = [] \<Longrightarrow>
           responseTimeStats_r r = EmptyObject"
    and "reservations db = [] \<Longrightarrow> topCustomers r = [] \<and> statusDistribution r = []"
proof -
  note R = reservationReportOf_Inr [OF assms]
  show "responseTimeStats_r r \<noteq> Null \<and> responseTimeStats_r r \<noteq> Undefined"
    unfolding R(3) by (rule jsOr_index0_defined)
  show "filter (\<lambda>x. status_r x = ''confirmed'' \<or> status_r x = ''completed''
                      \<or> status_r x = ''cancelled'') (reservations db) = [] \<Longrightarrow>
           responseTimeStats_r r = EmptyObject"
    by (simp add: R(3) findDocs_def responseTimeStatsOf_Nil jsOr_index0)
  show "reservations db = [] \<Longrightarrow> topCustomers r = [] \<and> statusDistribution r = []"
    by (simp add: R(4,5))
qed

lemma user_empty_fields:
  assumes "userReportOf e q db = Inr r"
  shows "activityStats r \<noteq> Null \<and> activityStats r \<noteq> Undefined"
    and "users db = [] \<Longrightarrow>
           activityStats r = EmptyObject \<and> topActiveUsers r = [] \<and> loginDistribution r = []"
proof -
  note R = userReportOf_Inr [OF assms]
  show "activityStats r \<noteq> Null \<and> activityStats r \<noteq> Undefined"
    unfolding R(4) by (rule jsOr_index0_defined)
  show "users db = [] \<Longrightarrow>
           activityStats r = EmptyObject \<and> topActiveUsers r = [] \<and> loginDistribution r = []"
    by (simp add: R(4,5,7) activityStatsOf_Nil loginDistributionOf_def findDocs_def jsOr_index0)
qed


text \<open>
  C6.  Where a report succeeds, the field of an aggregation into a single group
  (\<open>stockValue\<close>, \<open>revenueStats\<close>, both \<open>responseTimeStats\<close>, \<open>activityStats\<close>) is never null
  or undefined, and it is the empty object when the aggregation matches no document; the
  list-valued fields over the same documents are then empty lists.  What a report throws
  does not depend on what the collections hold, so matching nothing never makes it throw.
\<close>

theorem empty_aggregation_gives_empty_object:
  "(\<forall>r. productReportOf e q db = Inr r \<longrightarrow>
        stockValue r \<noteq> Null \<and> stockValue r \<noteq> Undefined
        \<and> (filter isActive (products db) = [] \<longrightarrow>
              stockValue r = EmptyObject \<and> categoryDistribution r = []
              \<and> lowStockProductsList r = [] \<and> outOfStockProductsList r = []))
   \<and> (\<forall>r. quotationReportOf e q db = Inr r \<longrightarrow>
        revenueStats r \<noteq> Null \<and> revenueStats r \<noteq> Undefined
        \<and> responseTimeStats r \<noteq> Null \<and> responseTimeStats r \<noteq> Undefined
        \<and> (filter (\<lambda>x. status x = ''completed'') (quotations db) = [] \<longrightarrow>
              revenueStats r = EmptyObject)
        \<and> (filter (\<lambda>x. status x = ''completed'' \<or> status x = ''rejected'') (quotations db) = [] \<longrightarrow>
              responseTimeStats r = EmptyObject)
        \<and> (quotations db = [] \<longrightarrow> categoryStats r = []))
   \<and> (\<forall>r. reservationReportOf e q db = Inr r \<longrightarrow>
        responseTimeStats_r r \<noteq> Null \<and> responseTimeStats_r r \<noteq> Undefined
        \<and> (filter (\<lambda>x. status_r x = ''confirmed'' \<or> status_r x = ''completed''
                         \<or> status_r x = ''cancelled'') (reservations db) = [] \<longrightarrow>
              responseTimeStats_r r = EmptyObject)
        \<and> (reservations db = [] \<longrightarrow> topCustomers r = [] \<and> statusDistribution r = []))
   \<and> (\<forall>r. userReportOf e q db = Inr r \<longrightarrow>
        activityStats r \<noteq> Null \<and> activityStats r \<noteq> Undefined
        \<and> (users db = [] \<longrightarrow>
              activityStats r = EmptyObject \<and> topActiveUsers r = [] \<and> loginDistribution r = []))
   \<and> thrown (productReportOf e q db) = thrown (productReportOf e q db')
   \<and> thrown (quotationReportOf e q db) = thrown (quotationReportOf e q db')
   \<and> thrown (reservationReportOf e q db) = thrown (reservationReportOf e q db')
   \<and> thrown (userReportOf e q db) = thrown (userReportOf e q db')"
proof -
  have p: "\<forall>r. productReportOf e q db = Inr r \<longrightarrow>
        stockValue r \<noteq> Null \<and> stockValue r \<noteq> Undefined
        \<and> (filter isActive (products db) = [] \<longrightarrow>
              stockValue r = EmptyObject \<and> categoryDistribution r = []
              \<and> lowStockProductsList r = [] \<and> outOfStockProductsList r = [])"
    using product_empty_fields by blast
  have qu: "\<forall>r. quotationReportOf e q db = Inr r \<longrightarrow>
        revenueStats r \<noteq> Null \<and> revenueStats r \<noteq> Undefined
        \<and> responseTimeStats r \<noteq> Null \<and> responseTimeStats r \<noteq> Undefined
        \<and> (filter (\<lambda>x. status x = ''completed'') (quotations db) = [] \<longrightarrow>
              revenueStats r = EmptyObject)
        \<and> (filter (\<lambda>x. status x = ''completed'' \<or> status x = ''rejected'') (quotations db) = [] \<longrightarrow>
              responseTimeStats r = EmptyObject)
        \<and> (quotations db = [] \<longrightarrow> categoryStats r = [])"
    using quotation_empty_fields by blast
  have re: "\<forall>r. reservationReportOf e q db = Inr r \<longrightarrow>
        responseTimeStats_r r \<noteq> Null \<and> responseTimeStats_r r \<noteq> Undefined
        \<and> (filter (\<lambda>x. status_r x = ''confirmed'' \<or> status_r x = ''completed''
                         \<or> status_r x = ''cancelled'') (reservations db) = [] \<longrightarrow>
              responseTimeStats_r r = EmptyObject)
        \<and> (reservations db = [] \<longrightarrow> topCustomers r = [] \<and> statusDistribution r = [])"
    using reservation_empty_fields by blast
  have us: "\<forall>r. userReportOf e q db = Inr r \<longrightarrow>
        activityStats r \<noteq> Null \<and> activityStats r \<noteq> Undefined
        \<and> (users db = [] \<longrightarrow>
              activityStats r = EmptyObject \<and> topActiveUsers r = [] \<and> loginDistribution r = [])"
    using user_empty_fields by blast
  show ?thesis
    using p qu re us thrown_productReportOf [of e q db db']
      thrown_quotationReportOf [of e q db db'] thrown_reservationReportOf [of e q db db']
      thrown_userReportOf [of e q db db']
    by (intro conjI)
qed

lemma reports_of_emptyDb:
  "\<not> isl (productReportOf exampleEnv None emptyDb)"
  "\<not> isl (quotationReportOf exampleEnv None emptyDb)"
  "\<not> isl (reservationReportOf exampleEnv None emptyDb)"
  "\<not> isl (userReportOf exampleEnv None emptyDb)"
  by code_simp+

theorem empty_aggregation_gives_empty_object_witness:
  "\<exists>p u v w. productReportOf exampleEnv None emptyDb = Inr p \<and> stockValue p = EmptyObject
       \<and> categoryDistribution p = []
     \<and> quotationReportOf exampleEnv None emptyDb = Inr u \<and> revenueStats u = EmptyObject
       \<and> responseTimeStats u = EmptyObject
     \<and> reservationReportOf exampleEnv None emptyDb = Inr v \<and> responseTimeStats_r v = EmptyObject
     \<and> userReportOf exampleEnv None emptyDb = Inr w \<and> activityStats w = EmptyObject
       \<and> loginDistribution w = []"
proof -
  obtain p where p: "productReportOf exampleEnv None emptyDb = Inr p"
    using not_isl_Inr [OF reports_of_emptyDb(1)] by blast
  obtain u where u: "quotationReportOf exampleEnv None emptyDb = Inr u"
    using not_isl_Inr [OF reports_of_emptyDb(2)] by blast
  obtain v where v: "reservationReportOf exampleEnv None emptyDb = Inr v"
    using not_isl_Inr [OF reports_of_emptyDb(3)] by blast
  obtain w where w: "userReportOf exampleEnv None emptyDb = Inr w"
    using not_isl_Inr [OF reports_of_emptyDb(4)] by blast
  note T = empty_aggregation_gives_empty_object [of exampleEnv None emptyDb emptyDb]
  have "stockValue p = EmptyObject \<and> categoryDistribution p = []"
    using T p by (simp add: emptyDb_def)
  moreover have "revenueStats u = EmptyObject \<and> responseTimeStats u = EmptyObject"
    using T u by (simp add: emptyDb_def)
  moreover have "responseTimeStats_r v = EmptyObject"
    using T v by (simp add: emptyDb_def)
  moreover have "activityStats w = EmptyObject \<and> loginDistribution w = []"
    using T w by (simp add: emptyDb_def)
  ultimately show ?thesis
    using p u v w by blast
qed

section \<open>User report: the login histogram\<close>




















section \<open>Recent counts\<close>




lemma parseInt_examples:
  "parseInt ''30'' = Some 30" "parseInt ''0'' = Some 0" "parseInt ''7.9'' = Some 7"
  "parseInt ''15abc'' = Some 15" "parseInt ''-5'' = Some (- 5)" "parseInt ''abc'' = None"
  "parseInt [] = None" "parseInt ''0x10'' = Some 16"
  by code_simp+



section \<open>The period parameter\<close>






















section \<open>Reading only, and answering the same twice\<close>



















section \<open>Trend series at a failing input\<close>

text \<open>
  C4.  At 2024-05-10T15:00Z, with two users registered earlier that day (00:13 and 10:00)
  and one of them last logged in at 10:00, the point labelled 2024-05-10 of both series is
  0 and the point labelled 2024-05-09 holds them: a point counts from the time of day of
  the request on, not the calendar day of its label.
\<close>

theorem daily_trends_at_afternoon:
  "map_sum id (\<lambda>r. map (\<lambda>p. (date_r p, count_r p)) (registrationTrends r))
       (userReportOf afternoonEnv None (emptyDb\<lparr>users := exampleUsers\<rparr>))
     = Inr [(''2024-05-04'', 0), (''2024-05-05'', 0), (''2024-05-06'', 0), (''2024-05-07'', 0),
            (''2024-05-08'', 0), (''2024-05-09'', 2), (''2024-05-10'', 0)]
   \<and> map_sum id (\<lambda>r. map (\<lambda>p. (date_a p, activeUsers_a p)) (activityTrends r))
       (userReportOf afternoonEnv None (emptyDb\<lparr>users := exampleUsers\<rparr>))
     = Inr [(''2024-05-04'', 0), (''2024-05-05'', 0), (''2024-05-06'', 0), (''2024-05-07'', 0),
            (''2024-05-08'', 0), (''2024-05-09'', 1), (''2024-05-10'', 0)]
   \<and> map dayOf (map createdAt exampleUsers)
     = [''2024-05-10'', ''2024-05-10'', ''2023-11-14'', ''2023-11-14'', ''2023-11-14'']
   \<and> map (map_option dayOf) (map lastLogin exampleUsers)
     = [None, Some ''2024-05-10'', None, None, None]"
  by (intro conjI) code_simp+

text \<open>
  C2.  At 2024-05-31T12:00Z the months of both series are 2023-12, 2024-01, 2024-03,
  2024-03, 2024-05, 2024-05 (\<open>setMonth\<close> keeps day 31, which February and April do not
  have), and the documents created at 10:00 that day are in no point: all three
  quotations and the reservation were created in May 2024, two of the quotations completed
  with 100 and 200, and the points of May say 2 quotations, revenue 200 and 0 reservations.
\<close>

theorem monthly_trends_at_month_end:
  "map_sum id (\<lambda>r. map (\<lambda>p. (month_q p, count_m p, revenue p)) (monthlyTrends r))
       (quotationReportOf exampleEnv None (emptyDb\<lparr>quotations := exampleQuotations\<rparr>))
     = Inr [(''2023-12'', 0, 0), (''2024-01'', 0, 0), (''2024-03'', 0, 0), (''2024-03'', 0, 0),
            (''2024-05'', 2, 200), (''2024-05'', 2, 200)]
   \<and> map_sum id (\<lambda>r. map (\<lambda>p. (month_r p, count_v p)) (monthlyTrends_r r))
       (reservationReportOf exampleEnv None (emptyDb\<lparr>reservations := exampleReservations\<rparr>))
     = Inr [(''2023-12'', 0), (''2024-01'', 0), (''2024-03'', 0), (''2024-03'', 0),
            (''2024-05'', 0), (''2024-05'', 0)]
   \<and> map monthOf (map createdAt exampleQuotations) = [''2024-05'', ''2024-05'', ''2024-05'']
   \<and> map status exampleQuotations = [''completed'', ''completed'', ''pending'']
   \<and> map totalAmount exampleQuotations = [100, 200, 50]
   \<and> map monthOf (map createdAt exampleReservations) = [''2024-05'']"
  by (intro conjI) code_simp+

end
